theory Spec2Isabelle
  imports Main "HOL-Library.Word"
begin

unbundle bit_operations_syntax

section \<open>The transaction sender of the offchain SDK\<close>

text \<open>
  A shallow embedding of \<^verbatim>\<open>src/core/transactor/sender/sender.go\<close>: the in-flight
  registry (\<^verbatim>\<open>sendingTxs\<close>), \<^verbatim>\<open>IsSending\<close>, \<^verbatim>\<open>SendTransaction\<close> and the retry loop
  \<^verbatim>\<open>retryTxWithPolicy\<close>.

  The chain client, the retry policy, the replacement policy, the factory and the logger
  are interface values held by the \<^verbatim>\<open>Sender\<close>; their implementations are not part of the
  source. Each of them is stateful. Their behaviour is therefore a parameter of the model:
  the answer of a collaborator is a function of the calls made so far (the history) and
  of the arguments of the call. Every call the Sender makes is appended to the history,
  so the history is also the trace of one run.

  One call of \<^verbatim>\<open>SendTransaction\<close> is modelled in isolation (no other goroutine touches
  the registry in between), and \<^verbatim>\<open>Setup\<close> is taken to have run (chain client and logger
  are set).
\<close>

subsection \<open>Data\<close>

type_synonym uint64 = "64 word"

text \<open>\<^verbatim>\<open>common.Hash\<close>: 32 bytes, compared with \<^verbatim>\<open>!=\<close>.\<close>
type_synonym txhash = "256 word"

text \<open>\<^verbatim>\<open>time.Duration\<close>: an \<^verbatim>\<open>int64\<close> of nanoseconds.\<close>
type_synonym duration = "64 word"

text \<open>\<^verbatim>\<open>context.Context\<close>: an opaque value handed on to the chain client and the factory.\<close>
type_synonym go_context = nat

text \<open>
  A Go \<^verbatim>\<open>error\<close> is \<open>error option\<close>, \<open>None\<close> being \<^verbatim>\<open>nil\<close>. The loop itself only
  tests an error against \<^verbatim>\<open>nil\<close>; the kinds are those the policies tell apart.
\<close>
datatype error = NonceTooLow | ReplaceUnderpriced | Other string

text \<open>
  \<^verbatim>\<open>*coretypes.Transaction\<close> is a pointer: a transaction is \<open>tx option\<close>, \<open>None\<close> being
  \<^verbatim>\<open>nil\<close>. The record holds what the methods \<^verbatim>\<open>Nonce()\<close> and \<^verbatim>\<open>GasPrice()\<close> read (the
  gas price is a \<^verbatim>\<open>*big.Int\<close> that is never negative) and the payload. \<^verbatim>\<open>Hash()\<close> is
  computed from the transaction; it is the function \<open>tx_Hash\<close> of the environment below.
  Calling a method on \<^verbatim>\<open>nil\<close> panics.
\<close>
record tx =
  nonce :: uint64
  gasPrice :: nat
  payload :: "8 word list"

datatype level = Error | Debug

datatype logval = VHash txhash | VErr "error option" | VGas nat | VNonce uint64

text \<open>
  One entry of the history for every call the Sender makes, with its result. The type
  \<open>'r\<close> is that of the request a transaction is rebuilt from (the result of
  \<^verbatim>\<open>types.NewTxRequestFromTx\<close>): its declaration is not part of the source, and the Sender
  only hands a request on to the factory.
\<close>
datatype 'r event =
    is_Broadcast: Broadcast go_context "tx option" "error option"
  | is_Get: Get "tx option" "error option" bool duration
  | Sleep duration
  | Log level string "(string \<times> logval) list"
  | GetNew "tx option" "error option" "tx option"
  | UpdateTxModified txhash txhash
  | BuildTransactionFromRequests go_context uint64 'r "tx option" "error option"

text \<open>
  The collaborators. The first argument of each is the history at the moment of the
  call, most recent event first.
\<close>
record 'r env =
  chain_SendTransaction :: "'r event list \<Rightarrow> go_context \<Rightarrow> tx option \<Rightarrow> error option"
  retryPolicy_Get :: "'r event list \<Rightarrow> tx option \<Rightarrow> error option \<Rightarrow> bool \<times> duration"
  txReplacementPolicy_GetNew :: "'r event list \<Rightarrow> tx option \<Rightarrow> error option \<Rightarrow> tx option"
  factory_BuildTransactionFromRequests ::
    "'r event list \<Rightarrow> go_context \<Rightarrow> uint64 \<Rightarrow> 'r \<Rightarrow> tx option \<times> error option"
  types_NewTxRequestFromTx :: "tx \<Rightarrow> 'r"
  tx_Hash :: "tx \<Rightarrow> txhash"

text \<open>
  The mutable part of the \<^verbatim>\<open>Sender\<close>: the registry \<^verbatim>\<open>sendingTxs\<close> (a \<^verbatim>\<open>sync.Map\<close>
  from message ids to \<^verbatim>\<open>struct{}{}\<close>), and the history of calls.
\<close>
record 'r sender =
  sendingTxs :: "string \<rightharpoonup> unit"
  history :: "'r event list"

subsection \<open>The registry\<close>

definition sendingTxs_Store :: "'r sender \<Rightarrow> string \<Rightarrow> 'r sender" where
  "sendingTxs_Store s msgID = s\<lparr>sendingTxs := (sendingTxs s)(msgID \<mapsto> ())\<rparr>"

definition sendingTxs_Delete :: "'r sender \<Rightarrow> string \<Rightarrow> 'r sender" where
  "sendingTxs_Delete s msgID = s\<lparr>sendingTxs := (sendingTxs s)(msgID := None)\<rparr>"

definition IsSending :: "'r sender \<Rightarrow> string \<Rightarrow> bool" where
  "IsSending s msgID = (case sendingTxs s msgID of None \<Rightarrow> False | Some _ \<Rightarrow> True)"

subsection \<open>The retry loop\<close>

definition record_event :: "'r event \<Rightarrow> 'r sender \<Rightarrow> 'r sender" where
  "record_event e s = s\<lparr>history := e # history s\<rparr>"

text \<open>How one pass through the body of the \<^verbatim>\<open>for\<close> loop ends.\<close>
datatype flow = Return "error option" | Panic | Next "tx option"

text \<open>
  The body of the loop of \<^verbatim>\<open>retryTxWithPolicy\<close>, statement by statement. \<^verbatim>\<open>tx.Hash()\<close>
  on a \<^verbatim>\<open>nil\<close> transaction is a nil-pointer dereference: the goroutine panics.
\<close>
definition loop_body :: "'r env \<Rightarrow> go_context \<Rightarrow> tx option \<Rightarrow> 'r sender \<Rightarrow> flow \<times> 'r sender" where
  "loop_body E ctx tx s =
    (let err = chain_SendTransaction E (history s) ctx tx;
         s1 = record_event (Broadcast ctx tx err) s;
         (retry, backoff) = retryPolicy_Get E (history s1) tx err;
         s2 = record_event (Get tx err retry backoff) s1
     in if \<not> retry then (Return err, s2)
        else
          let s3 = record_event (Sleep backoff) s2 in
          case tx of
            None \<Rightarrow> (Panic, s3)
          | Some t \<Rightarrow>
              let currTx = tx_Hash E t; currGasPrice = gasPrice t; currNonce = nonce t;
                  s4 = record_event
                         (Log Error ''failed to send tx, retrying...''
                            [(''hash'', VHash currTx), (''err'', VErr err)]) s3;
                  tx' = txReplacementPolicy_GetNew E (history s4) tx err;
                  s5 = record_event (GetNew tx err tx') s4
              in (case tx' of
                   None \<Rightarrow> (Panic, s5)
                 | Some t' \<Rightarrow>
                     let newTx = tx_Hash E t';
                         s6 = (if newTx \<noteq> currTx
                               then record_event (UpdateTxModified currTx newTx)
                                      (record_event
                                         (Log Debug ''retrying with diff gas and/or nonce''
                                            [(''old-gas'', VGas currGasPrice),
                                             (''new-gas'', VGas (gasPrice t')),
                                             (''old-nonce'', VNonce currNonce),
                                             (''new-nonce'', VNonce (nonce t'))]) s5)
                               else s5);
                         req = types_NewTxRequestFromTx E t';
                         (tx'', err') =
                            factory_BuildTransactionFromRequests E (history s6) ctx (nonce t') req;
                         s7 = record_event
                                (BuildTransactionFromRequests ctx (nonce t') req tx'' err') s6;
                         s8 = (case err' of
                                 None \<Rightarrow> s7
                               | Some e \<Rightarrow>
                                   record_event
                                     (Log Error ''failed to sign replacement transaction''
                                        [(''err'', VErr err')]) s7)
                     in (Next tx'', s8)))"

text \<open>
  The loop has no bound of its own. \<open>retryTxWithPolicy E n\<close> runs at most \<open>n\<close> passes;
  \<open>Running\<close> says that the loop is still going after them, and the state is the one
  reached at that point.
\<close>
datatype outcome = Returned "error option" | Panicked | Running

fun retryTxWithPolicy :: "'r env \<Rightarrow> nat \<Rightarrow> go_context \<Rightarrow> tx option \<Rightarrow> 'r sender \<Rightarrow> outcome \<times> 'r sender" where
  "retryTxWithPolicy E 0 ctx tx s = (Running, s)"
| "retryTxWithPolicy E (Suc n) ctx tx s =
    (case loop_body E ctx tx s of
       (Return err, s') \<Rightarrow> (Returned err, s')
     | (Panic, s') \<Rightarrow> (Panicked, s')
     | (Next tx', s') \<Rightarrow> retryTxWithPolicy E n ctx tx' s')"

subsection \<open>SendTransaction\<close>

text \<open>
  The two \<^verbatim>\<open>range\<close> loops are folds over \<^verbatim>\<open>msgIDs\<close>. The second one is ordinary code
  after the call of the retry loop (not deferred): it runs when the retry loop returns,
  and does not run when the retry loop panics.
\<close>
definition SendTransaction ::
  "'r env \<Rightarrow> nat \<Rightarrow> go_context \<Rightarrow> tx option \<Rightarrow> string list \<Rightarrow> 'r sender \<Rightarrow> outcome \<times> 'r sender" where
  "SendTransaction E n ctx tx msgIDs s =
    (let s1 = foldl sendingTxs_Store s msgIDs
     in case retryTxWithPolicy E n ctx tx s1 of
          (Returned err, s2) \<Rightarrow> (Returned err, foldl sendingTxs_Delete s2 msgIDs)
        | (Panicked, s2) \<Rightarrow> (Panicked, s2)
        | (Running, s2) \<Rightarrow> (Running, s2))"

subsection \<open>Reading a history\<close>

text \<open>The number of broadcasts and of retry-policy queries recorded in a history.\<close>
definition broadcasts :: "'r event list \<Rightarrow> nat" where
  "broadcasts h = length (filter is_Broadcast h)"

definition queries :: "'r event list \<Rightarrow> nat" where
  "queries h = length (filter is_Get h)"

text \<open>The transactions that were broadcast, the most recent one first.\<close>
fun broadcast_txs :: "'r event list \<Rightarrow> tx option list" where
  "broadcast_txs [] = []"
| "broadcast_txs (Broadcast ctx tx err # h) = tx # broadcast_txs h"
| "broadcast_txs (e # h) = broadcast_txs h"

text \<open>The same in the order of the attempts: the first attempt first.\<close>
definition attempts :: "'r event list \<Rightarrow> tx option list" where
  "attempts h = rev (broadcast_txs h)"

text \<open>
  The answers of the retry policy (its \<open>retry\<close> result), the most recent one first, and in
  the order of the queries.
\<close>
fun retry_answers :: "'r event list \<Rightarrow> bool list" where
  "retry_answers [] = []"
| "retry_answers (Get tx err retry backoff # h) = retry # retry_answers h"
| "retry_answers (e # h) = retry_answers h"

definition answers :: "'r event list \<Rightarrow> bool list" where
  "answers h = rev (retry_answers h)"

text \<open>The backoff waits, the most recent one first.\<close>
fun sleeps :: "'r event list \<Rightarrow> duration list" where
  "sleeps [] = []"
| "sleeps (Sleep d # h) = d # sleeps h"
| "sleeps (e # h) = sleeps h"

text \<open>The lineage updates given to the retry policy (old hash, new hash), the most recent one first.\<close>
fun updates :: "'r event list \<Rightarrow> (txhash \<times> txhash) list" where
  "updates [] = []"
| "updates (UpdateTxModified old new # h) = (old, new) # updates h"
| "updates (e # h) = updates h"

text \<open>
  The contexts handed out: the chain client's \<^verbatim>\<open>SendTransaction\<close> and the factory's
  \<^verbatim>\<open>BuildTransactionFromRequests\<close> are the calls that take one.
\<close>
fun contexts :: "'r event list \<Rightarrow> go_context list" where
  "contexts [] = []"
| "contexts (Broadcast ctx tx err # h) = ctx # contexts h"
| "contexts (BuildTransactionFromRequests ctx n req tx err # h) = ctx # contexts h"
| "contexts (e # h) = contexts h"


subsection \<open>Properties of collaborators\<close>


subsection \<open>The default replacement policy\<close>

text \<open>
  Modelled from the spec: the percentage step of \<^verbatim>\<open>DefaultTxReplacementPolicy\<close>, which
  is not part of the source (``increase gas price by a defined percentage step'').
\<close>
definition bump_gas :: "nat \<Rightarrow> nat \<Rightarrow> nat" where
  "bump_gas pct g = g + g * pct div 100"

text \<open>
  Modelled from the spec: \<^verbatim>\<open>DefaultTxReplacementPolicy.GetNew\<close>, which \<^verbatim>\<open>New\<close> installs
  as the replacement policy and which is not part of the source. After section 4.3 of
  the specification:
  \<^item> NonceTooLow: refresh to the current on-chain pending nonce, same requests, same or
    bumped gas (\<open>bump\<close> says which);
  \<^item> ReplaceUnderpriced: increase the gas price by the percentage step \<open>pct\<close>, same nonce
    and requests;
  \<^item> any other error: the same transaction, unchanged.
  \<open>pending h\<close> is the on-chain pending nonce at the moment of the call.
\<close>
definition GetNew_spec ::
  "nat \<Rightarrow> bool \<Rightarrow> ('r event list \<Rightarrow> uint64) \<Rightarrow> 'r event list \<Rightarrow> tx option \<Rightarrow> error option \<Rightarrow> tx option" where
  "GetNew_spec pct bump pending h tx err =
     (case tx of
        None \<Rightarrow> None
      | Some t \<Rightarrow>
          (case err of
             Some NonceTooLow \<Rightarrow>
               Some (t\<lparr>nonce := pending h,
                       gasPrice := (if bump then bump_gas pct (gasPrice t) else gasPrice t)\<rparr>)
           | Some ReplaceUnderpriced \<Rightarrow> Some (t\<lparr>gasPrice := bump_gas pct (gasPrice t)\<rparr>)
           | _ \<Rightarrow> Some t))"

subsection \<open>Concrete runs\<close>

text \<open>
  A transaction, a Sender with an empty registry, and collaborators after the scenario
  of the specification: the chain answers every broadcast with \<^verbatim>\<open>ReplaceUnderpriced\<close>,
  the retry policy retries twice (backoff 10) and then stops, the replacement policy is
  the default one with a step of 10 percent and a pending nonce of 8. The request that
  \<^verbatim>\<open>NewTxRequestFromTx\<close> takes from a transaction carries its gas price and its payload,
  and the factory builds the transaction it is asked for. The hash packs nonce and gas
  price.
\<close>
record request =
  req_gasPrice :: nat
  req_payload :: "8 word list"

definition tx0 :: tx where
  "tx0 = \<lparr>nonce = 7, gasPrice = 100, payload = []\<rparr>"

definition s0 :: "'r sender" where
  "s0 = \<lparr>sendingTxs = Map.empty, history = []\<rparr>"

definition toy_hash :: "tx \<Rightarrow> txhash" where
  "toy_hash t = ucast (nonce t) OR push_bit 64 (word_of_nat (gasPrice t))"

definition scenario_env :: "request env" where
  "scenario_env =
     \<lparr>chain_SendTransaction = (\<lambda>h ctx tx. Some ReplaceUnderpriced),
      retryPolicy_Get = (\<lambda>h tx err. (queries h < 2, 10)),
      txReplacementPolicy_GetNew = GetNew_spec 10 False (\<lambda>h. 8),
      factory_BuildTransactionFromRequests =
        (\<lambda>h ctx n req.
           (Some \<lparr>nonce = n, gasPrice = req_gasPrice req, payload = req_payload req\<rparr>, None)),
      types_NewTxRequestFromTx =
        (\<lambda>t. \<lparr>req_gasPrice = gasPrice t, req_payload = payload t\<rparr>),
      tx_Hash = toy_hash\<rparr>"

text \<open>The factory fails to build: it returns \<^verbatim>\<open>(nil, err)\<close>.\<close>
definition failing_build_env :: "request env" where
  "failing_build_env =
     scenario_env\<lparr>factory_BuildTransactionFromRequests :=
                    (\<lambda>h ctx n req. (None, Some (Other ''cannot sign'')))\<rparr>"


text \<open>The chain answers every broadcast with \<^verbatim>\<open>NonceTooLow\<close>.\<close>
definition nonce_too_low_env :: "request env" where
  "nonce_too_low_env = scenario_env\<lparr>chain_SendTransaction := (\<lambda>h ctx tx. Some NonceTooLow)\<rparr>"

text \<open>The chain answers \<^verbatim>\<open>NonceTooLow\<close>, and the factory fails to build.\<close>
definition failing_refresh_env :: "request env" where
  "failing_refresh_env =
     nonce_too_low_env\<lparr>factory_BuildTransactionFromRequests :=
                         (\<lambda>h ctx n req. (None, Some (Other ''cannot sign'')))\<rparr>"

text \<open>The chain accepts the transaction, and the retry policy stops on a \<^verbatim>\<open>nil\<close> error.\<close>
definition accepting_env :: "request env" where
  "accepting_env =
     scenario_env\<lparr>chain_SendTransaction := (\<lambda>h ctx tx. None),
                  retryPolicy_Get :=
                    (\<lambda>h tx err. case err of None \<Rightarrow> (False, 0) | Some e \<Rightarrow> (True, 10))\<rparr>"

text \<open>
  The chain answers every broadcast with a timeout, an error the default replacement
  policy leaves the transaction unchanged for.
\<close>
definition timeout_env :: "request env" where
  "timeout_env = scenario_env\<lparr>chain_SendTransaction := (\<lambda>h ctx tx. Some (Other ''timeout''))\<rparr>"

text \<open>
  The chain client honours the context: context 1 stands for a cancelled one, and a
  broadcast under it fails with \<^verbatim>\<open>context canceled\<close>. The retry policy retries that error
  like any other.
\<close>
definition cancelled_context_env :: "request env" where
  "cancelled_context_env =
     scenario_env\<lparr>chain_SendTransaction :=
                    (\<lambda>h ctx tx. if ctx = 1 then Some (Other ''context canceled'')
                                else Some ReplaceUnderpriced)\<rparr>"

section \<open>Basic facts\<close>

lemma history_record_event [simp]: "history (record_event e s) = e # history s"
  by (simp add: record_event_def)

lemma sendingTxs_record_event [simp]: "sendingTxs (record_event e s) = sendingTxs s"
  by (simp add: record_event_def)

lemma queries_simps [simp]:
  "queries [] = 0"
  "queries (e # h) = (if is_Get e then Suc (queries h) else queries h)"
  "queries (h @ h') = queries h + queries h'"
  by (simp_all add: queries_def)

lemma broadcasts_simps [simp]:
  "broadcasts [] = 0"
  "broadcasts (e # h) = (if is_Broadcast e then Suc (broadcasts h) else broadcasts h)"
  "broadcasts (h @ h') = broadcasts h + broadcasts h'"
  by (simp_all add: broadcasts_def)

lemma broadcast_txs_append [simp]:
  "broadcast_txs (h @ h') = broadcast_txs h @ broadcast_txs h'"
  by (induction h rule: broadcast_txs.induct) simp_all

lemma attempts_append [simp]: "attempts (h @ h') = attempts h' @ attempts h"
  by (simp add: attempts_def)

lemma retry_answers_append [simp]:
  "retry_answers (h @ h') = retry_answers h @ retry_answers h'"
  by (induction h rule: retry_answers.induct) simp_all

lemma answers_append [simp]: "answers (h @ h') = answers h' @ answers h"
  by (simp add: answers_def)

lemma sleeps_append [simp]: "sleeps (h @ h') = sleeps h @ sleeps h'"
  by (induction h rule: sleeps.induct) simp_all

lemma updates_append [simp]: "updates (h @ h') = updates h @ updates h'"
  by (induction h rule: updates.induct) simp_all

lemma contexts_append [simp]: "contexts (h @ h') = contexts h @ contexts h'"
  by (induction h rule: contexts.induct) simp_all

subsection \<open>The registry\<close>

lemma sendingTxs_foldl_Store:
  "sendingTxs (foldl sendingTxs_Store s ids) k = (if k \<in> set ids then Some () else sendingTxs s k)"
  by (induction ids arbitrary: s) (auto simp: sendingTxs_Store_def)

lemma sendingTxs_foldl_Delete:
  "sendingTxs (foldl sendingTxs_Delete s ids) k = (if k \<in> set ids then None else sendingTxs s k)"
  by (induction ids arbitrary: s) (auto simp: sendingTxs_Delete_def)

lemma history_foldl_Store [simp]: "history (foldl sendingTxs_Store s ids) = history s"
  by (induction ids arbitrary: s) (auto simp: sendingTxs_Store_def)

lemma history_foldl_Delete [simp]: "history (foldl sendingTxs_Delete s ids) = history s"
  by (induction ids arbitrary: s) (auto simp: sendingTxs_Delete_def)

subsection \<open>One pass of the loop\<close>

text \<open>The retry policy ends the loop.\<close>
lemma loop_body_stop:
  assumes "chain_SendTransaction E (history s) ctx tx = err"
    and "retryPolicy_Get E (Broadcast ctx tx err # history s) tx err = (False, b)"
  shows "loop_body E ctx tx s =
     (Return err, s\<lparr>history := Get tx err False b # Broadcast ctx tx err # history s\<rparr>)"
  using assms by (simp add: loop_body_def Let_def record_event_def)

text \<open>The loop goes on with a \<^verbatim>\<open>nil\<close> transaction: \<^verbatim>\<open>tx.Hash()\<close> panics.\<close>
lemma loop_body_nil:
  assumes "chain_SendTransaction E (history s) ctx None = err"
    and "retryPolicy_Get E (Broadcast ctx None err # history s) None err = (True, b)"
  shows "loop_body E ctx None s =
     (Panic, s\<lparr>history := Sleep b # Get None err True b # Broadcast ctx None err # history s\<rparr>)"
  using assms by (simp add: loop_body_def Let_def record_event_def)

text \<open>The replacement policy returns \<^verbatim>\<open>nil\<close>: \<^verbatim>\<open>tx.Hash()\<close> panics.\<close>
lemma loop_body_nil_replacement:
  assumes "chain_SendTransaction E (history s) ctx (Some t) = err"
    and "retryPolicy_Get E (Broadcast ctx (Some t) err # history s) (Some t) err = (True, b)"
    and "h4 = Log Error ''failed to send tx, retrying...''
                [(''hash'', VHash (tx_Hash E t)), (''err'', VErr err)]
              # Sleep b # Get (Some t) err True b # Broadcast ctx (Some t) err # history s"
    and "txReplacementPolicy_GetNew E h4 (Some t) err = None"
  shows "loop_body E ctx (Some t) s = (Panic, s\<lparr>history := GetNew (Some t) err None # h4\<rparr>)"
  using assms by (simp add: loop_body_def Let_def record_event_def)

text \<open>The pass that goes on to the next one: whatever the factory returns is carried on.\<close>
lemma loop_body_next:
  assumes "chain_SendTransaction E (history s) ctx (Some t) = err"
    and "retryPolicy_Get E (Broadcast ctx (Some t) err # history s) (Some t) err = (True, b)"
    and "h4 = Log Error ''failed to send tx, retrying...''
                [(''hash'', VHash (tx_Hash E t)), (''err'', VErr err)]
              # Sleep b # Get (Some t) err True b # Broadcast ctx (Some t) err # history s"
    and "txReplacementPolicy_GetNew E h4 (Some t) err = Some t'"
    and "h6 = (if tx_Hash E t' \<noteq> tx_Hash E t
               then [UpdateTxModified (tx_Hash E t) (tx_Hash E t'),
                     Log Debug ''retrying with diff gas and/or nonce''
                       [(''old-gas'', VGas (gasPrice t)), (''new-gas'', VGas (gasPrice t')),
                        (''old-nonce'', VNonce (nonce t)), (''new-nonce'', VNonce (nonce t'))]]
               else []) @ GetNew (Some t) err (Some t') # h4"
    and "factory_BuildTransactionFromRequests E h6 ctx (nonce t') (types_NewTxRequestFromTx E t')
           = (tx'', err')"
  shows "loop_body E ctx (Some t) s =
     (Next tx'',
      s\<lparr>history :=
          (case err' of None \<Rightarrow> []
           | Some e \<Rightarrow> [Log Error ''failed to sign replacement transaction'' [(''err'', VErr err')]])
          @ BuildTransactionFromRequests ctx (nonce t') (types_NewTxRequestFromTx E t') tx'' err'
          # h6\<rparr>)"
proof (cases "tx_Hash E t' = tx_Hash E t")
  case True
  then show ?thesis
    using assms by (cases err') (simp_all add: loop_body_def Let_def record_event_def)
next
  case False
  then show ?thesis
    using assms by (cases err') (simp_all add: loop_body_def Let_def record_event_def)
qed

text \<open>
  The four ways through the body, with the events each of them records (most recent
  first) and the transaction the next pass starts from.
\<close>
lemma loop_body_cases:
  fixes E :: "'r env"
  obtains
    (stop) err b where
      "loop_body E ctx tx s = (Return err, s\<lparr>history := [Get tx err False b, Broadcast ctx tx err] @ history s\<rparr>)"
      "chain_SendTransaction E (history s) ctx tx = err"
      "retryPolicy_Get E (Broadcast ctx tx err # history s) tx err = (False, b)"
  | (nil) err b where
      "tx = None"
      "loop_body E ctx tx s =
         (Panic, s\<lparr>history := [Sleep b, Get tx err True b, Broadcast ctx tx err] @ history s\<rparr>)"
      "chain_SendTransaction E (history s) ctx tx = err"
      "retryPolicy_Get E (Broadcast ctx tx err # history s) tx err = (True, b)"
  | (nil_replacement) t err b where
      "tx = Some t"
      "loop_body E ctx tx s =
         (Panic,
          s\<lparr>history :=
              [GetNew tx err None,
               Log Error ''failed to send tx, retrying...''
                 [(''hash'', VHash (tx_Hash E t)), (''err'', VErr err)],
               Sleep b, Get tx err True b, Broadcast ctx tx err] @ history s\<rparr>)"
      "chain_SendTransaction E (history s) ctx tx = err"
      "retryPolicy_Get E (Broadcast ctx tx err # history s) tx err = (True, b)"
  | (go_on) t err b h4 t' upd h6 tx'' err' where
      "tx = Some t"
      "chain_SendTransaction E (history s) ctx tx = err"
      "h4 = [Log Error ''failed to send tx, retrying...''
               [(''hash'', VHash (tx_Hash E t)), (''err'', VErr err)],
             Sleep b, Get tx err True b, Broadcast ctx tx err] @ history s"
      "txReplacementPolicy_GetNew E h4 tx err = Some t'"
      "upd = (if tx_Hash E t' \<noteq> tx_Hash E t
              then [UpdateTxModified (tx_Hash E t) (tx_Hash E t'),
                    Log Debug ''retrying with diff gas and/or nonce''
                      [(''old-gas'', VGas (gasPrice t)), (''new-gas'', VGas (gasPrice t')),
                       (''old-nonce'', VNonce (nonce t)), (''new-nonce'', VNonce (nonce t'))]]
              else [])"
      "h6 = upd @ GetNew tx err (Some t') # h4"
      "factory_BuildTransactionFromRequests E h6 ctx (nonce t') (types_NewTxRequestFromTx E t')
         = (tx'', err')"
      "loop_body E ctx tx s =
         (Next tx'',
          s\<lparr>history :=
              ((case err' of None \<Rightarrow> []
                | Some e \<Rightarrow> [Log Error ''failed to sign replacement transaction'' [(''err'', VErr err')]])
               @ BuildTransactionFromRequests ctx (nonce t') (types_NewTxRequestFromTx E t') tx'' err'
               # upd
               @ [GetNew tx err (Some t'),
                  Log Error ''failed to send tx, retrying...''
                    [(''hash'', VHash (tx_Hash E t)), (''err'', VErr err)],
                  Sleep b, Get tx err True b, Broadcast ctx tx err]) @ history s\<rparr>)"
      "retryPolicy_Get E (Broadcast ctx tx err # history s) tx err = (True, b)"
proof -
  define err where "err = chain_SendTransaction E (history s) ctx tx"
  have c': "chain_SendTransaction E (history s) ctx tx = err"
    by (simp add: err_def)
  obtain r b where g: "retryPolicy_Get E (Broadcast ctx tx err # history s) tx err = (r, b)"
    by (cases "retryPolicy_Get E (Broadcast ctx tx err # history s) tx err")
  show ?thesis
  proof (cases r)
    case False
    with g have gF: "retryPolicy_Get E (Broadcast ctx tx err # history s) tx err = (False, b)"
      by simp
    have "loop_body E ctx tx s =
        (Return err, s\<lparr>history := [Get tx err False b, Broadcast ctx tx err] @ history s\<rparr>)"
      using loop_body_stop [OF c' gF] by simp
    then show ?thesis using c' gF by (rule stop)
  next
    case True
    with g have gT: "retryPolicy_Get E (Broadcast ctx tx err # history s) tx err = (True, b)"
      by simp
    show ?thesis
    proof (cases tx)
      case None
      have "loop_body E ctx tx s =
         (Panic, s\<lparr>history := [Sleep b, Get tx err True b, Broadcast ctx tx err] @ history s\<rparr>)"
        using loop_body_nil [of E s ctx err b] c' gT None by simp
      with None show ?thesis using c' gT by (rule nil)
    next
      case (Some t)
      define h4 where "h4 = Log Error ''failed to send tx, retrying...''
                [(''hash'', VHash (tx_Hash E t)), (''err'', VErr err)]
              # Sleep b # Get (Some t) err True b # Broadcast ctx (Some t) err # history s"
      have c: "chain_SendTransaction E (history s) ctx (Some t) = err"
        and g': "retryPolicy_Get E (Broadcast ctx (Some t) err # history s) (Some t) err = (True, b)"
        using c' gT Some by simp_all
      have h4': "h4 = [Log Error ''failed to send tx, retrying...''
               [(''hash'', VHash (tx_Hash E t)), (''err'', VErr err)],
             Sleep b, Get tx err True b, Broadcast ctx tx err] @ history s"
        using Some by (simp add: h4_def)
      show ?thesis
      proof (cases "txReplacementPolicy_GetNew E h4 (Some t) err")
        case None
        have "loop_body E ctx tx s =
         (Panic,
          s\<lparr>history :=
              [GetNew tx err None,
               Log Error ''failed to send tx, retrying...''
                 [(''hash'', VHash (tx_Hash E t)), (''err'', VErr err)],
               Sleep b, Get tx err True b, Broadcast ctx tx err] @ history s\<rparr>)"
          using loop_body_nil_replacement [OF c g' h4_def None] \<open>tx = Some t\<close>
          by (simp add: h4_def)
        with \<open>tx = Some t\<close> show ?thesis using c' gT by (rule nil_replacement)
      next
        case (Some t')
        define upd :: "'r event list" where "upd = (if tx_Hash E t' \<noteq> tx_Hash E t
              then [UpdateTxModified (tx_Hash E t) (tx_Hash E t'),
                    Log Debug ''retrying with diff gas and/or nonce''
                      [(''old-gas'', VGas (gasPrice t)), (''new-gas'', VGas (gasPrice t')),
                       (''old-nonce'', VNonce (nonce t)), (''new-nonce'', VNonce (nonce t'))]]
              else [])"
        define h6 where "h6 = upd @ GetNew (Some t) err (Some t') # h4"
        obtain tx'' err' where
          bld: "factory_BuildTransactionFromRequests E h6 ctx (nonce t') (types_NewTxRequestFromTx E t')
                  = (tx'', err')"
          by (cases "factory_BuildTransactionFromRequests E h6 ctx (nonce t') (types_NewTxRequestFromTx E t')")
        have gn: "txReplacementPolicy_GetNew E h4 tx err = Some t'"
          using Some \<open>tx = Some t\<close> by simp
        have h6': "h6 = upd @ GetNew tx err (Some t') # h4"
          using \<open>tx = Some t\<close> by (simp add: h6_def)
        have "loop_body E ctx (Some t) s =
           (Next tx'',
            s\<lparr>history :=
              ((case err' of None \<Rightarrow> []
                | Some e \<Rightarrow> [Log Error ''failed to sign replacement transaction'' [(''err'', VErr err')]])
               @ BuildTransactionFromRequests ctx (nonce t') (types_NewTxRequestFromTx E t') tx'' err'
               # upd
               @ [GetNew (Some t) err (Some t'),
                  Log Error ''failed to send tx, retrying...''
                    [(''hash'', VHash (tx_Hash E t)), (''err'', VErr err)],
                  Sleep b, Get (Some t) err True b, Broadcast ctx (Some t) err]) @ history s\<rparr>)"
          using loop_body_next [OF c g' h4_def Some _ bld]
          by (simp add: h6_def upd_def h4_def)
        then have lb: "loop_body E ctx tx s =
           (Next tx'',
            s\<lparr>history :=
              ((case err' of None \<Rightarrow> []
                | Some e \<Rightarrow> [Log Error ''failed to sign replacement transaction'' [(''err'', VErr err')]])
               @ BuildTransactionFromRequests ctx (nonce t') (types_NewTxRequestFromTx E t') tx'' err'
               # upd
               @ [GetNew tx err (Some t'),
                  Log Error ''failed to send tx, retrying...''
                    [(''hash'', VHash (tx_Hash E t)), (''err'', VErr err)],
                  Sleep b, Get tx err True b, Broadcast ctx tx err]) @ history s\<rparr>)"
          using \<open>tx = Some t\<close> by simp
        show ?thesis
          by (rule go_on [OF \<open>tx = Some t\<close> c' h4' gn upd_def h6' bld lb gT])
      qed
    qed
  qed
qed

text \<open>What every pass records, whichever way it goes.\<close>
lemma loop_body_pass:
  obtains evs where
    "history (snd (loop_body E ctx tx s)) = evs @ history s"
    "sendingTxs (snd (loop_body E ctx tx s)) = sendingTxs s"
    "broadcast_txs evs = [tx]" "queries evs = 1" "broadcasts evs = 1"
    "\<And>old new. UpdateTxModified old new \<in> set evs \<longleftrightarrow>
        (\<exists>t err t'. GetNew (Some t) err (Some t') \<in> set evs \<and>
                     old = tx_Hash E t \<and> new = tx_Hash E t' \<and> tx_Hash E t' \<noteq> tx_Hash E t)"
proof (cases rule: loop_body_cases [of E ctx tx s])
  case (stop err b)
  show ?thesis
    by (rule that [of "[Get tx err False b, Broadcast ctx tx err]"]) (simp_all add: stop)
next
  case (nil err b)
  show ?thesis
    by (rule that [of "[Sleep b, Get tx err True b, Broadcast ctx tx err]"]) (use nil in simp_all)
next
  case (nil_replacement t err b)
  show ?thesis
    by (rule that [of "[GetNew tx err None,
               Log Error ''failed to send tx, retrying...''
                 [(''hash'', VHash (tx_Hash E t)), (''err'', VErr err)],
               Sleep b, Get tx err True b, Broadcast ctx tx err]"])
       (use nil_replacement in simp_all)
next
  case (go_on t err b h4 t' upd h6 tx'' err')
  let ?evs = "(case err' of None \<Rightarrow> []
                | Some e \<Rightarrow> [Log Error ''failed to sign replacement transaction'' [(''err'', VErr err')]])
               @ BuildTransactionFromRequests ctx (nonce t') (types_NewTxRequestFromTx E t') tx'' err'
               # upd
               @ [GetNew tx err (Some t'),
                  Log Error ''failed to send tx, retrying...''
                    [(''hash'', VHash (tx_Hash E t)), (''err'', VErr err)],
                  Sleep b, Get tx err True b, Broadcast ctx tx err]"
  show ?thesis
  proof (rule that [of ?evs])
    show "history (snd (loop_body E ctx tx s)) = ?evs @ history s"
      and "sendingTxs (snd (loop_body E ctx tx s)) = sendingTxs s"
      using go_on(1,8) by simp_all
    show "broadcast_txs ?evs = [tx]" "queries ?evs = 1" "broadcasts ?evs = 1"
      by (simp_all add: go_on(5) split: option.splits)
    show "UpdateTxModified old new \<in> set ?evs \<longleftrightarrow>
        (\<exists>t err t'. GetNew (Some t) err (Some t') \<in> set ?evs \<and>
                     old = tx_Hash E t \<and> new = tx_Hash E t' \<and> tx_Hash E t' \<noteq> tx_Hash E t)"
      for old new
      by (auto simp: go_on(1,5) split: option.splits)
  qed
qed

text \<open>The answer of the retry policy in a pass, and how the pass ends.\<close>
lemma loop_body_answer:
  fixes E :: "'r env"
  obtains evs where
    "history (snd (loop_body E ctx tx s)) = evs @ history s"
    "broadcasts evs = 1"
    "case fst (loop_body E ctx tx s) of
       Return err \<Rightarrow>
         answers evs = [False] \<and> (\<exists>b. evs = [Get tx err False b, Broadcast ctx tx err]) \<and>
         chain_SendTransaction E (history s) ctx tx = err
     | Panic \<Rightarrow> answers evs = [True]
     | Next tx' \<Rightarrow> answers evs = [True]"
proof (cases rule: loop_body_cases [of E ctx tx s])
  case (stop err b)
  show ?thesis
    by (rule that [of "[Get tx err False b, Broadcast ctx tx err]"])
       (simp_all add: stop(1,2) answers_def)
next
  case (nil err b)
  show ?thesis
    by (rule that [of "[Sleep b, Get tx err True b, Broadcast ctx tx err]"])
       (simp_all add: nil(2) answers_def)
next
  case (nil_replacement t err b)
  show ?thesis
    by (rule that [of "[GetNew tx err None,
               Log Error ''failed to send tx, retrying...''
                 [(''hash'', VHash (tx_Hash E t)), (''err'', VErr err)],
               Sleep b, Get tx err True b, Broadcast ctx tx err]"])
       (simp_all add: nil_replacement(2) answers_def)
next
  case (go_on t err b h4 t' upd h6 tx'' err')
  let ?evs = "(case err' of None \<Rightarrow> []
                | Some e \<Rightarrow> [Log Error ''failed to sign replacement transaction'' [(''err'', VErr err')]])
               @ BuildTransactionFromRequests ctx (nonce t') (types_NewTxRequestFromTx E t') tx'' err'
               # upd
               @ [GetNew tx err (Some t'),
                  Log Error ''failed to send tx, retrying...''
                    [(''hash'', VHash (tx_Hash E t)), (''err'', VErr err)],
                  Sleep b, Get tx err True b, Broadcast ctx tx err]"
  show ?thesis
    by (rule that [of ?evs]) (simp_all add: go_on(5,8) answers_def split: option.splits)
qed

subsection \<open>The loop\<close>

lemma sendingTxs_retryTxWithPolicy:
  "sendingTxs (snd (retryTxWithPolicy E n ctx tx s)) = sendingTxs s"
proof (induction n arbitrary: tx s)
  case 0
  show ?case by simp
next
  case (Suc n)
  obtain fl s' where lb: "loop_body E ctx tx s = (fl, s')"
    by (cases "loop_body E ctx tx s")
  have "sendingTxs s' = sendingTxs s"
    using loop_body_pass [of E ctx tx s] lb by (metis snd_conv)
  then show ?case
    using lb Suc.IH by (cases fl) simp_all
qed

lemma sendingTxs_SendTransaction:
  "sendingTxs (snd (SendTransaction E n ctx tx msgIDs s)) k =
     (case fst (SendTransaction E n ctx tx msgIDs s) of
        Returned err \<Rightarrow> (if k \<in> set msgIDs then None else sendingTxs s k)
      | _ \<Rightarrow> (if k \<in> set msgIDs then Some () else sendingTxs s k))"
proof -
  let ?s1 = "foldl sendingTxs_Store s msgIDs"
  obtain r s2 where run: "retryTxWithPolicy E n ctx tx ?s1 = (r, s2)"
    by (cases "retryTxWithPolicy E n ctx tx ?s1")
  have "sendingTxs s2 = sendingTxs ?s1"
    using sendingTxs_retryTxWithPolicy [of E n ctx tx ?s1] run by simp
  then show ?thesis
    using run
    by (cases r) (simp_all add: SendTransaction_def sendingTxs_foldl_Store sendingTxs_foldl_Delete)
qed

lemma history_SendTransaction:
  "history (snd (SendTransaction E n ctx tx msgIDs s)) =
     history (snd (retryTxWithPolicy E n ctx tx (foldl sendingTxs_Store s msgIDs)))"
proof -
  let ?s1 = "foldl sendingTxs_Store s msgIDs"
  obtain r s2 where run: "retryTxWithPolicy E n ctx tx ?s1 = (r, s2)"
    by (cases "retryTxWithPolicy E n ctx tx ?s1")
  then show ?thesis
    by (cases r) (simp_all add: SendTransaction_def)
qed

lemma fst_SendTransaction:
  "fst (SendTransaction E n ctx tx msgIDs s) =
     fst (retryTxWithPolicy E n ctx tx (foldl sendingTxs_Store s msgIDs))"
proof -
  let ?s1 = "foldl sendingTxs_Store s msgIDs"
  obtain r s2 where run: "retryTxWithPolicy E n ctx tx ?s1 = (r, s2)"
    by (cases "retryTxWithPolicy E n ctx tx ?s1")
  then show ?thesis
    by (cases r) (simp_all add: SendTransaction_def)
qed

text \<open>Once the loop has returned or panicked, more passes change nothing.\<close>
lemma retryTxWithPolicy_more_fuel:
  "retryTxWithPolicy E n ctx tx s = (r, s') \<Longrightarrow> r \<noteq> Running \<Longrightarrow>
     retryTxWithPolicy E (n + k) ctx tx s = (r, s')"
proof (induction n arbitrary: tx s)
  case 0
  then show ?case by simp
next
  case (Suc n)
  obtain fl s1 where lb: "loop_body E ctx tx s = (fl, s1)"
    by (cases "loop_body E ctx tx s")
  show ?case
  proof (cases fl)
    case (Next tx')
    with Suc lb show ?thesis by simp
  qed (use Suc.prems lb in simp_all)
qed

text \<open>
  A run of the loop, read off its history: one answer of the retry policy for every
  broadcast; the loop returns on the first \<open>retry = false\<close>, and what it returns is what
  the chain client answered to the last broadcast.
\<close>
lemma retry_run:
  fixes E :: "'r env"
  shows "\<exists>evs. history (snd (retryTxWithPolicy E n ctx tx s)) = evs @ history s \<and>
     broadcasts evs = length (answers evs) \<and>
     (case fst (retryTxWithPolicy E n ctx tx s) of
        Returned err \<Rightarrow>
          (\<exists>N tx' b h. answers evs = replicate N True @ [False] \<and>
             evs = Get tx' err False b # Broadcast ctx tx' err # h \<and>
             chain_SendTransaction E (h @ history s) ctx tx' = err)
      | Panicked \<Rightarrow> False \<notin> set (answers evs)
      | Running \<Rightarrow> False \<notin> set (answers evs))"
proof (induction n arbitrary: tx s)
  case 0
  show ?case
    by (intro exI [of _ "[]"]) (simp add: answers_def)
next
  case (Suc n)
  obtain fl s1 where lb: "loop_body E ctx tx s = (fl, s1)"
    by (cases "loop_body E ctx tx s")
  obtain evs1 where h1': "history (snd (loop_body E ctx tx s)) = evs1 @ history s"
    and b1: "broadcasts evs1 = 1"
    and a1': "case fst (loop_body E ctx tx s) of
       Return err \<Rightarrow>
         answers evs1 = [False] \<and> (\<exists>b. evs1 = [Get tx err False b, Broadcast ctx tx err]) \<and>
         chain_SendTransaction E (history s) ctx tx = err
     | Panic \<Rightarrow> answers evs1 = [True]
     | Next tx' \<Rightarrow> answers evs1 = [True]"
    by (rule loop_body_answer [of E ctx tx s])
  have h1: "history s1 = evs1 @ history s"
    using h1' lb by simp
  have a1: "case fl of
       Return err \<Rightarrow>
         answers evs1 = [False] \<and> (\<exists>b. evs1 = [Get tx err False b, Broadcast ctx tx err]) \<and>
         chain_SendTransaction E (history s) ctx tx = err
     | Panic \<Rightarrow> answers evs1 = [True]
     | Next tx' \<Rightarrow> answers evs1 = [True]"
    using a1' lb by simp
  show ?case
  proof (cases fl)
    case (Return err)
    then obtain b where "answers evs1 = [False]" "evs1 = [Get tx err False b, Broadcast ctx tx err]"
      "chain_SendTransaction E (history s) ctx tx = err"
      using a1 by auto
    then show ?thesis
      using lb Return h1 b1
      by (intro exI [of _ evs1]) (auto intro: exI [of _ 0])
  next
    case Panic
    then show ?thesis
      using lb h1 b1 a1 by (intro exI [of _ evs1]) simp
  next
    case (Next tx2)
    then have t1: "answers evs1 = [True]"
      using a1 by simp
    from Suc.IH [of tx2 s1] obtain evs2 where
      h2: "history (snd (retryTxWithPolicy E n ctx tx2 s1)) = evs2 @ history s1" and
      b2: "broadcasts evs2 = length (answers evs2)" and
      c2: "case fst (retryTxWithPolicy E n ctx tx2 s1) of
        Returned err \<Rightarrow>
          (\<exists>N tx' b h. answers evs2 = replicate N True @ [False] \<and>
             evs2 = Get tx' err False b # Broadcast ctx tx' err # h \<and>
             chain_SendTransaction E (h @ history s1) ctx tx' = err)
      | Panicked \<Rightarrow> False \<notin> set (answers evs2)
      | Running \<Rightarrow> False \<notin> set (answers evs2)"
      by blast
    have run: "retryTxWithPolicy E (Suc n) ctx tx s = retryTxWithPolicy E n ctx tx2 s1"
      using lb Next by simp
    have hist: "history (snd (retryTxWithPolicy E (Suc n) ctx tx s)) = (evs2 @ evs1) @ history s"
      unfolding run using h1 h2 by simp
    have cnt: "broadcasts (evs2 @ evs1) = length (answers (evs2 @ evs1))"
      using b1 b2 t1 by simp
    have "case fst (retryTxWithPolicy E n ctx tx2 s1) of
        Returned err \<Rightarrow>
          (\<exists>N tx' b h. answers (evs2 @ evs1) = replicate N True @ [False] \<and>
             evs2 @ evs1 = Get tx' err False b # Broadcast ctx tx' err # h \<and>
             chain_SendTransaction E (h @ history s) ctx tx' = err)
      | Panicked \<Rightarrow> False \<notin> set (answers (evs2 @ evs1))
      | Running \<Rightarrow> False \<notin> set (answers (evs2 @ evs1))"
    proof (cases "fst (retryTxWithPolicy E n ctx tx2 s1)")
      case (Returned err)
      with c2 obtain N tx' b h where
        A: "answers evs2 = replicate N True @ [False]" and
        B: "evs2 = Get tx' err False b # Broadcast ctx tx' err # h" and
        C: "chain_SendTransaction E (h @ history s1) ctx tx' = err"
        by auto
      have "answers (evs2 @ evs1) = replicate (Suc N) True @ [False]"
        using A t1 by simp
      moreover have "evs2 @ evs1 = Get tx' err False b # Broadcast ctx tx' err # (h @ evs1)"
        using B by simp
      moreover have "chain_SendTransaction E ((h @ evs1) @ history s) ctx tx' = err"
        using C h1 by simp
      ultimately have "\<exists>N tx' b h. answers (evs2 @ evs1) = replicate N True @ [False] \<and>
             evs2 @ evs1 = Get tx' err False b # Broadcast ctx tx' err # h \<and>
             chain_SendTransaction E (h @ history s) ctx tx' = err"
        by blast
      then show ?thesis
        unfolding Returned outcome.case by blast
    next
      case Panicked
      with c2 show ?thesis using t1 by simp
    next
      case Running
      with c2 show ?thesis using t1 by simp
    qed
    then show ?thesis
      unfolding run using hist cnt run by (intro exI [of _ "evs2 @ evs1"]) simp
  qed
qed

lemma SendTransaction_more_fuel:
  assumes "fst (SendTransaction E n ctx tx msgIDs s) \<noteq> Running"
  shows "SendTransaction E (n + k) ctx tx msgIDs s = SendTransaction E n ctx tx msgIDs s"
proof -
  let ?s1 = "foldl sendingTxs_Store s msgIDs"
  obtain r s2 where run: "retryTxWithPolicy E n ctx tx ?s1 = (r, s2)"
    by (cases "retryTxWithPolicy E n ctx tx ?s1")
  then have "r \<noteq> Running"
    using assms by (simp add: fst_SendTransaction)
  from retryTxWithPolicy_more_fuel [OF run this, of k] run show ?thesis
    by (simp add: SendTransaction_def)
qed

text \<open>The same for \<^verbatim>\<open>SendTransaction\<close>.\<close>
lemma SendTransaction_run:
  fixes E :: "'r env"
  assumes "history (snd (SendTransaction E n ctx tx msgIDs s)) = evs @ history s"
  shows "broadcasts evs = length (answers evs) \<and>
     (case fst (SendTransaction E n ctx tx msgIDs s) of
        Returned err \<Rightarrow>
          (\<exists>N tx' b h. answers evs = replicate N True @ [False] \<and>
             evs = Get tx' err False b # Broadcast ctx tx' err # h \<and>
             chain_SendTransaction E (h @ history s) ctx tx' = err)
      | Panicked \<Rightarrow> False \<notin> set (answers evs)
      | Running \<Rightarrow> False \<notin> set (answers evs))"
proof -
  let ?s1 = "foldl sendingTxs_Store s msgIDs"
  from retry_run [of E n ctx tx ?s1] obtain evs' where
    h: "history (snd (retryTxWithPolicy E n ctx tx ?s1)) = evs' @ history ?s1" and
    r: "broadcasts evs' = length (answers evs') \<and>
     (case fst (retryTxWithPolicy E n ctx tx ?s1) of
        Returned err \<Rightarrow>
          (\<exists>N tx' b h. answers evs' = replicate N True @ [False] \<and>
             evs' = Get tx' err False b # Broadcast ctx tx' err # h \<and>
             chain_SendTransaction E (h @ history ?s1) ctx tx' = err)
      | Panicked \<Rightarrow> False \<notin> set (answers evs')
      | Running \<Rightarrow> False \<notin> set (answers evs'))"
    by blast
  have e: "evs' = evs"
    using h assms by (simp add: history_SendTransaction)
  show ?thesis
    using r unfolding e
    by (cases "fst (retryTxWithPolicy E n ctx tx ?s1)") (simp_all add: fst_SendTransaction)
qed

subsection \<open>Gas prices under the default replacement policy\<close>




subsection \<open>The concrete runs\<close>

text \<open>The definitions a run of the scenario unfolds to.\<close>
lemmas run_simps =
  SendTransaction_def loop_body_def Let_def record_event_def queries_def
  sendingTxs_Store_def sendingTxs_Delete_def
  scenario_env_def GetNew_spec_def bump_gas_def toy_hash_def tx0_def s0_def

text \<open>
  With a factory whose build fails, the call does not return, whatever the bound on the
  number of passes: it panics in the second pass.
\<close>
lemma failing_build_run:
  "fst (retryTxWithPolicy failing_build_env 2 0 (Some tx0) (foldl sendingTxs_Store s0 [''a''])) = Panicked"
  "fst (retryTxWithPolicy failing_build_env 1 0 (Some tx0) (foldl sendingTxs_Store s0 [''a''])) = Running"
  "fst (retryTxWithPolicy failing_build_env 0 0 (Some tx0) (foldl sendingTxs_Store s0 [''a''])) = Running"
  unfolding numeral_2_eq_2 One_nat_def
  by (simp_all add: run_simps failing_build_env_def)

lemma failing_build_never_returns:
  "fst (SendTransaction failing_build_env n 0 (Some tx0) [''a''] s0) \<noteq> Returned err"
proof -
  let ?s1 = "foldl sendingTxs_Store s0 [''a'']"
  consider "n = 0" | "n = 1" | k where "n = 2 + k"
    by (cases n rule: nat.exhaust; cases "n - 1" rule: nat.exhaust) auto
  then have "fst (retryTxWithPolicy failing_build_env n 0 (Some tx0) ?s1) \<noteq> Returned err"
  proof cases
    case 1
    then show ?thesis using failing_build_run(3) by simp
  next
    case 2
    then show ?thesis using failing_build_run(2) by simp
  next
    case (3 k)
    obtain s' where "retryTxWithPolicy failing_build_env 2 0 (Some tx0) ?s1 = (Panicked, s')"
      using failing_build_run(1) by (metis prod.collapse)
    from retryTxWithPolicy_more_fuel [OF this, of k] 3 show ?thesis
      by simp
  qed
  then show ?thesis
    by (simp add: fst_SendTransaction)
qed

section \<open>The claims\<close>

subsection \<open>C1: a failed rebuild\<close>

text \<open>
  Claim C1 says that, when \<^verbatim>\<open>BuildTransactionFromRequests\<close> fails during replacement, the
  error is logged and the next broadcast uses the last known-good transaction. The code
  assigns both results of the factory (\<^verbatim>\<open>tx, err = ...\<close>), so the failed build's result
  replaces the transaction. With a factory that returns \<^verbatim>\<open>(nil, err)\<close>: the error is
  logged, the second attempt broadcasts \<^verbatim>\<open>nil\<close> instead of a transaction, and, the
  policy asking for another retry, \<^verbatim>\<open>tx.Hash()\<close> panics.
\<close>
theorem failed_build_result_is_broadcast:
  "attempts (history (snd (SendTransaction failing_build_env 3 0 (Some tx0) [''a''] s0)))
     = [Some tx0, None] \<and>
   Log Error ''failed to sign replacement transaction'' [(''err'', VErr (Some (Other ''cannot sign'')))]
     \<in> set (history (snd (SendTransaction failing_build_env 3 0 (Some tx0) [''a''] s0))) \<and>
   fst (SendTransaction failing_build_env 3 0 (Some tx0) [''a''] s0) = Panicked"
  unfolding numeral_3_eq_3
  by (simp add: run_simps failing_build_env_def attempts_def)

subsection \<open>C2: the registry during a call\<close>

text \<open>
  Claim C2: every id of \<^verbatim>\<open>msgIDs\<close> is in the registry when the retry loop starts (the
  state of \<^verbatim>\<open>SendTransaction\<close> after no pass of the loop), it is there in every state of
  the call that is not a return (after any number \<open>k\<close> of passes), and it is out of the
  registry in the state \<^verbatim>\<open>SendTransaction\<close> returns with, whatever it returns (\<^verbatim>\<open>nil\<close> or
  an error).
\<close>
theorem registered_until_return:
  assumes "msgID \<in> set msgIDs"
  shows "IsSending (snd (SendTransaction E 0 ctx tx msgIDs s)) msgID \<and>
     (\<forall>k. (\<forall>err. fst (SendTransaction E k ctx tx msgIDs s) \<noteq> Returned err) \<longrightarrow>
          IsSending (snd (SendTransaction E k ctx tx msgIDs s)) msgID) \<and>
     (\<forall>err. fst (SendTransaction E n ctx tx msgIDs s) = Returned err \<longrightarrow>
          \<not> IsSending (snd (SendTransaction E n ctx tx msgIDs s)) msgID)"
proof (intro conjI allI impI)
  show "IsSending (snd (SendTransaction E 0 ctx tx msgIDs s)) msgID"
    using sendingTxs_SendTransaction [of E 0 ctx tx msgIDs s msgID] assms
    by (simp add: IsSending_def fst_SendTransaction)
  show "IsSending (snd (SendTransaction E k ctx tx msgIDs s)) msgID"
    if "\<forall>err. fst (SendTransaction E k ctx tx msgIDs s) \<noteq> Returned err" for k
    using sendingTxs_SendTransaction [of E k ctx tx msgIDs s msgID] assms that
    by (cases "fst (SendTransaction E k ctx tx msgIDs s)") (simp_all add: IsSending_def)
  show "\<not> IsSending (snd (SendTransaction E n ctx tx msgIDs s)) msgID"
    if "fst (SendTransaction E n ctx tx msgIDs s) = Returned err" for err
    using sendingTxs_SendTransaction [of E n ctx tx msgIDs s msgID] assms that
    by (simp add: IsSending_def)
qed

theorem registered_until_return_witness:
  "''a'' \<in> set [''a'', ''b''] \<and>
   fst (SendTransaction scenario_env 0 0 (Some tx0) [''a'', ''b''] s0) = Running \<and>
   IsSending (snd (SendTransaction scenario_env 0 0 (Some tx0) [''a'', ''b''] s0)) ''a'' \<and>
   fst (SendTransaction scenario_env 2 0 (Some tx0) [''a'', ''b''] s0) = Running \<and>
   IsSending (snd (SendTransaction scenario_env 2 0 (Some tx0) [''a'', ''b''] s0)) ''a'' \<and>
   fst (SendTransaction scenario_env 3 0 (Some tx0) [''a'', ''b''] s0)
     = Returned (Some ReplaceUnderpriced) \<and>
   \<not> IsSending (snd (SendTransaction scenario_env 3 0 (Some tx0) [''a'', ''b''] s0)) ''a'' \<and>
   fst (SendTransaction accepting_env 1 0 (Some tx0) [''a'', ''b''] s0) = Returned None \<and>
   \<not> IsSending (snd (SendTransaction accepting_env 1 0 (Some tx0) [''a'', ''b''] s0)) ''a''"
proof -
  have mem: "''a'' \<in> set [''a'', ''b'']"
    by simp
  have r0: "fst (SendTransaction scenario_env 0 0 (Some tx0) [''a'', ''b''] s0) = Running"
    by (simp add: SendTransaction_def)
  have r2: "fst (SendTransaction scenario_env 2 0 (Some tx0) [''a'', ''b''] s0) = Running"
    unfolding numeral_2_eq_2 by (simp add: run_simps)
  have r3: "fst (SendTransaction scenario_env 3 0 (Some tx0) [''a'', ''b''] s0)
      = Returned (Some ReplaceUnderpriced)"
    unfolding numeral_3_eq_3 by (simp add: run_simps)
  have ra: "fst (SendTransaction accepting_env 1 0 (Some tx0) [''a'', ''b''] s0) = Returned None"
    by (simp add: run_simps accepting_env_def)
  note T = registered_until_return [OF mem, where E = scenario_env and ctx = 0
      and tx = "Some tx0" and s = s0 and n = 3]
  note A = registered_until_return [OF mem, where E = accepting_env and ctx = 0
      and tx = "Some tx0" and s = s0 and n = 1]
  have c0: "IsSending (snd (SendTransaction scenario_env 0 0 (Some tx0) [''a'', ''b''] s0)) ''a''"
    using T by blast
  have "\<forall>err. fst (SendTransaction scenario_env 2 0 (Some tx0) [''a'', ''b''] s0) \<noteq> Returned err"
    using r2 by simp
  then have c2: "IsSending (snd (SendTransaction scenario_env 2 0 (Some tx0) [''a'', ''b''] s0)) ''a''"
    using T by blast
  have c3: "\<not> IsSending (snd (SendTransaction scenario_env 3 0 (Some tx0) [''a'', ''b''] s0)) ''a''"
    using T r3 by blast
  have ca: "\<not> IsSending (snd (SendTransaction accepting_env 1 0 (Some tx0) [''a'', ''b''] s0)) ''a''"
    using A ra by blast
  show ?thesis
    using mem r0 c0 r2 c2 r3 c3 ra ca by blast
qed

text \<open>
  A call that panics does not return, and the claim says nothing of it: the second loop
  over \<^verbatim>\<open>msgIDs\<close> is not deferred, and the ids stay in the registry.
\<close>
lemma panicked_call_keeps_ids:
  assumes "fst (SendTransaction E n ctx tx msgIDs s) = Panicked" and "msgID \<in> set msgIDs"
  shows "IsSending (snd (SendTransaction E n ctx tx msgIDs s)) msgID"
  using sendingTxs_SendTransaction [of E n ctx tx msgIDs s msgID] assms
  by (simp add: IsSending_def)

subsection \<open>C3: the number of broadcasts\<close>

text \<open>
  Claim C3, read on the run of a call: if the answers the retry policy gave during the
  call are \<open>N\<close> times \<open>retry = true\<close> and then \<open>retry = false\<close>, then \<^verbatim>\<open>SendTransaction\<close>
  returns, the chain client's broadcast was invoked exactly \<open>N + 1\<close> times, and the
  value returned is the error the chain client produced for the last of them, the
  \<open>(N + 1)\<close>-th (\<open>N\<close> broadcasts come before it). In the run of C1, where a failed build
  puts a \<^verbatim>\<open>nil\<close> transaction into the loop, the policy answers \<open>retry = true\<close> twice and
  is not asked again: the loop panics before a third answer.
\<close>
theorem broadcasts_N_plus_1_times:
  fixes E :: "'r env"
  assumes "history (snd (SendTransaction E n ctx tx msgIDs s)) = evs @ history s"
    and "answers evs = replicate N True @ [False]"
  shows "\<exists>err tx' b h.
           fst (SendTransaction E n ctx tx msgIDs s) = Returned err \<and>
           broadcasts evs = N + 1 \<and>
           evs = Get tx' err False b # Broadcast ctx tx' err # h \<and> broadcasts h = N \<and>
           chain_SendTransaction E (h @ history s) ctx tx' = err"
proof -
  note run = SendTransaction_run [OF assms(1)]
  have cnt: "broadcasts evs = N + 1"
    using run assms(2) by simp
  have stop: "False \<in> set (answers evs)"
    using assms(2) by simp
  show ?thesis
  proof (cases "fst (SendTransaction E n ctx tx msgIDs s)")
    case (Returned err)
    with run obtain N' tx' b h where
      e: "evs = Get tx' err False b # Broadcast ctx tx' err # h" and
      c: "chain_SendTransaction E (h @ history s) ctx tx' = err"
      by auto
    have "broadcasts h = N"
      using cnt e by simp
    with Returned cnt e c show ?thesis
      by blast
  next
    case Panicked
    with run stop show ?thesis by simp
  next
    case Running
    with run stop show ?thesis by simp
  qed
qed

theorem broadcasts_N_plus_1_times_witness:
  "history (snd (SendTransaction scenario_env 3 0 (Some tx0) [''a''] s0))
     = history (snd (SendTransaction scenario_env 3 0 (Some tx0) [''a''] s0)) @ history (s0 :: request sender) \<and>
   answers (history (snd (SendTransaction scenario_env 3 0 (Some tx0) [''a''] s0)))
     = replicate 2 True @ [False] \<and>
   fst (SendTransaction scenario_env 3 0 (Some tx0) [''a''] s0) = Returned (Some ReplaceUnderpriced) \<and>
   (\<exists>err tx' b h.
      fst (SendTransaction scenario_env 3 0 (Some tx0) [''a''] s0) = Returned err \<and>
      broadcasts (history (snd (SendTransaction scenario_env 3 0 (Some tx0) [''a''] s0))) = 2 + 1 \<and>
      history (snd (SendTransaction scenario_env 3 0 (Some tx0) [''a''] s0))
        = Get tx' err False b # Broadcast 0 tx' err # h \<and> broadcasts h = 2 \<and>
      chain_SendTransaction scenario_env (h @ history s0) 0 tx' = err)"
proof -
  have a: "history (snd (SendTransaction scenario_env 3 0 (Some tx0) [''a''] s0))
     = history (snd (SendTransaction scenario_env 3 0 (Some tx0) [''a''] s0)) @ history (s0 :: request sender)"
    by (simp add: s0_def)
  have b: "answers (history (snd (SendTransaction scenario_env 3 0 (Some tx0) [''a''] s0)))
     = replicate 2 True @ [False]"
    unfolding numeral_3_eq_3 numeral_2_eq_2 by (simp add: run_simps answers_def)
  have c: "fst (SendTransaction scenario_env 3 0 (Some tx0) [''a''] s0) = Returned (Some ReplaceUnderpriced)"
    unfolding numeral_3_eq_3 by (simp add: run_simps)
  from broadcasts_N_plus_1_times [OF a b] a b c show ?thesis
    by blast
qed

subsection \<open>C4: what is returned\<close>

text \<open>
  Claim C4: if the retry policy answers \<open>retry = false\<close> at some point of the call, then
  \<^verbatim>\<open>SendTransaction\<close> returns, and with the same result under every larger bound on the
  number of passes; the value returned is what the chain client answered to the last
  broadcast (\<^verbatim>\<open>nil\<close> or an error), and every answer of the policy before the last one was
  \<open>retry = true\<close>: the errors of the earlier broadcasts and those of the factory went to
  the log and to the policies, not to the caller.
\<close>
theorem returns_last_broadcast_error:
  fixes E :: "'r env"
  assumes "history (snd (SendTransaction E n ctx tx msgIDs s)) = evs @ history s"
    and "False \<in> set (answers evs)"
  shows "\<exists>err tx' b h.
           fst (SendTransaction E n ctx tx msgIDs s) = Returned err \<and>
           (\<forall>k. SendTransaction E (n + k) ctx tx msgIDs s = SendTransaction E n ctx tx msgIDs s) \<and>
           evs = Get tx' err False b # Broadcast ctx tx' err # h \<and>
           chain_SendTransaction E (h @ history s) ctx tx' = err \<and>
           False \<notin> set (answers h)"
proof -
  note run = SendTransaction_run [OF assms(1)]
  show ?thesis
  proof (cases "fst (SendTransaction E n ctx tx msgIDs s)")
    case (Returned err)
    with run obtain N tx' b h where
      a: "answers evs = replicate N True @ [False]" and
      e: "evs = Get tx' err False b # Broadcast ctx tx' err # h" and
      c: "chain_SendTransaction E (h @ history s) ctx tx' = err"
      by auto
    have "answers evs = answers h @ [False]"
      unfolding e by (simp add: answers_def)
    with a have "answers h = replicate N True"
      by simp
    then have "False \<notin> set (answers h)"
      by simp
    moreover have "\<forall>k. SendTransaction E (n + k) ctx tx msgIDs s = SendTransaction E n ctx tx msgIDs s"
      using SendTransaction_more_fuel [of E n ctx tx msgIDs s] Returned by simp
    ultimately show ?thesis
      using Returned e c by blast
  next
    case Panicked
    with run assms(2) show ?thesis by simp
  next
    case Running
    with run assms(2) show ?thesis by simp
  qed
qed

theorem returns_last_broadcast_error_witness:
  "history (snd (SendTransaction scenario_env 3 0 (Some tx0) [''a''] s0))
     = history (snd (SendTransaction scenario_env 3 0 (Some tx0) [''a''] s0)) @ history (s0 :: request sender) \<and>
   False \<in> set (answers (history (snd (SendTransaction scenario_env 3 0 (Some tx0) [''a''] s0)))) \<and>
   fst (SendTransaction scenario_env 3 0 (Some tx0) [''a''] s0) = Returned (Some ReplaceUnderpriced) \<and>
   (\<exists>err tx' b h.
      fst (SendTransaction scenario_env 3 0 (Some tx0) [''a''] s0) = Returned err \<and>
      (\<forall>k. SendTransaction scenario_env (3 + k) 0 (Some tx0) [''a''] s0
             = SendTransaction scenario_env 3 0 (Some tx0) [''a''] s0) \<and>
      history (snd (SendTransaction scenario_env 3 0 (Some tx0) [''a''] s0))
        = Get tx' err False b # Broadcast 0 tx' err # h \<and>
      chain_SendTransaction scenario_env (h @ history s0) 0 tx' = err \<and>
      False \<notin> set (answers h)) \<and>
   history (snd (SendTransaction accepting_env 2 0 (Some tx0) [''a''] s0))
     = history (snd (SendTransaction accepting_env 2 0 (Some tx0) [''a''] s0)) @ history (s0 :: request sender) \<and>
   False \<in> set (answers (history (snd (SendTransaction accepting_env 2 0 (Some tx0) [''a''] s0)))) \<and>
   fst (SendTransaction accepting_env 2 0 (Some tx0) [''a''] s0) = Returned None \<and>
   (\<exists>err tx' b h.
      fst (SendTransaction accepting_env 2 0 (Some tx0) [''a''] s0) = Returned err \<and>
      (\<forall>k. SendTransaction accepting_env (2 + k) 0 (Some tx0) [''a''] s0
             = SendTransaction accepting_env 2 0 (Some tx0) [''a''] s0) \<and>
      history (snd (SendTransaction accepting_env 2 0 (Some tx0) [''a''] s0))
        = Get tx' err False b # Broadcast 0 tx' err # h \<and>
      chain_SendTransaction accepting_env (h @ history s0) 0 tx' = err \<and>
      False \<notin> set (answers h))"
proof -
  have a: "history (snd (SendTransaction scenario_env 3 0 (Some tx0) [''a''] s0))
     = history (snd (SendTransaction scenario_env 3 0 (Some tx0) [''a''] s0)) @ history (s0 :: request sender)"
    by (simp add: s0_def)
  have b: "False \<in> set (answers (history (snd (SendTransaction scenario_env 3 0 (Some tx0) [''a''] s0))))"
    unfolding numeral_3_eq_3 by (simp add: run_simps answers_def)
  have c: "fst (SendTransaction scenario_env 3 0 (Some tx0) [''a''] s0) = Returned (Some ReplaceUnderpriced)"
    unfolding numeral_3_eq_3 by (simp add: run_simps)
  have a': "history (snd (SendTransaction accepting_env 2 0 (Some tx0) [''a''] s0))
     = history (snd (SendTransaction accepting_env 2 0 (Some tx0) [''a''] s0)) @ history (s0 :: request sender)"
    by (simp add: s0_def)
  have b': "False \<in> set (answers (history (snd (SendTransaction accepting_env 2 0 (Some tx0) [''a''] s0))))"
    unfolding numeral_2_eq_2 by (simp add: run_simps accepting_env_def answers_def)
  have c': "fst (SendTransaction accepting_env 2 0 (Some tx0) [''a''] s0) = Returned None"
    unfolding numeral_2_eq_2 by (simp add: run_simps accepting_env_def)
  from returns_last_broadcast_error [OF a b] returns_last_broadcast_error [OF a' b'] a b c a' b' c'
  show ?thesis
    by blast
qed

subsection \<open>C5: the first broadcast is accepted\<close>

text \<open>
  Claim C5: if the first broadcast returns \<^verbatim>\<open>nil\<close> and the retry policy answers
  \<open>(false, 0)\<close> to it, \<^verbatim>\<open>SendTransaction\<close> returns \<^verbatim>\<open>nil\<close>, and the only calls made are that
  broadcast and that query: no replacement, no build, no sleep.
\<close>
theorem first_broadcast_accepted:
  assumes "chain_SendTransaction E (history s) ctx tx = None"
    and "retryPolicy_Get E (Broadcast ctx tx None # history s) tx None = (False, 0)"
  shows "\<exists>s'. SendTransaction E (Suc n) ctx tx msgIDs s = (Returned None, s') \<and>
           history s' = Get tx None False 0 # Broadcast ctx tx None # history s"
proof -
  let ?s1 = "foldl sendingTxs_Store s msgIDs"
  have "loop_body E ctx tx ?s1 =
          (Return None, ?s1\<lparr>history := Get tx None False 0 # Broadcast ctx tx None # history ?s1\<rparr>)"
    using assms by (intro loop_body_stop) simp_all
  then show ?thesis
    by (simp add: SendTransaction_def)
qed

theorem first_broadcast_accepted_witness:
  "chain_SendTransaction accepting_env (history s0) 0 (Some tx0) = None \<and>
   retryPolicy_Get accepting_env (Broadcast 0 (Some tx0) None # history s0) (Some tx0) None = (False, 0) \<and>
   (\<exists>s'. SendTransaction accepting_env (Suc 0) 0 (Some tx0) [''a''] s0 = (Returned None, s') \<and>
           history s' = Get (Some tx0) None False 0 # Broadcast 0 (Some tx0) None # history s0)"
proof -
  have a: "chain_SendTransaction accepting_env (history s0) 0 (Some tx0) = None"
    by (simp add: accepting_env_def scenario_env_def)
  have b: "retryPolicy_Get accepting_env (Broadcast 0 (Some tx0) None # history s0) (Some tx0) None = (False, 0)"
    by (simp add: accepting_env_def scenario_env_def)
  from first_broadcast_accepted [OF a b, of 0 "[''a'']"] a b show ?thesis
    by blast
qed

subsection \<open>C6: the lineage update\<close>

text \<open>
  Claim C6: in a retried pass (the retry policy answers \<open>retry = true\<close> for the
  transaction \<open>t\<close>, and the replacement policy returns the transaction \<open>t'\<close>), the
  replacement policy is asked, and \<^verbatim>\<open>UpdateTxModified\<close> is called exactly once, with the
  hash of \<open>t\<close> and the hash of \<open>t'\<close>, if the two hashes differ, and not at all if they
  are equal.
\<close>
theorem update_iff_hash_changed:
  fixes E :: "'r env"
  assumes "chain_SendTransaction E (history s) ctx (Some t) = err"
    and "retryPolicy_Get E (Broadcast ctx (Some t) err # history s) (Some t) err = (True, b)"
    and "txReplacementPolicy_GetNew E
           (Log Error ''failed to send tx, retrying...''
              [(''hash'', VHash (tx_Hash E t)), (''err'', VErr err)]
            # Sleep b # Get (Some t) err True b # Broadcast ctx (Some t) err # history s)
           (Some t) err = Some t'"
    and "history (snd (loop_body E ctx (Some t) s)) = evs @ history s"
  shows "GetNew (Some t) err (Some t') \<in> set evs \<and>
     updates evs =
       (if tx_Hash E t' \<noteq> tx_Hash E t then [(tx_Hash E t, tx_Hash E t')] else [])"
proof -
  define h4 where "h4 = Log Error ''failed to send tx, retrying...''
                [(''hash'', VHash (tx_Hash E t)), (''err'', VErr err)]
              # Sleep b # Get (Some t) err True b # Broadcast ctx (Some t) err # history s"
  define upd :: "'r event list" where "upd = (if tx_Hash E t' \<noteq> tx_Hash E t
               then [UpdateTxModified (tx_Hash E t) (tx_Hash E t'),
                     Log Debug ''retrying with diff gas and/or nonce''
                       [(''old-gas'', VGas (gasPrice t)), (''new-gas'', VGas (gasPrice t')),
                        (''old-nonce'', VNonce (nonce t)), (''new-nonce'', VNonce (nonce t'))]]
               else [])"
  define h6 where "h6 = upd @ GetNew (Some t) err (Some t') # h4"
  obtain tx'' err' where
    bld: "factory_BuildTransactionFromRequests E h6 ctx (nonce t') (types_NewTxRequestFromTx E t')
           = (tx'', err')"
    by (cases "factory_BuildTransactionFromRequests E h6 ctx (nonce t') (types_NewTxRequestFromTx E t')")
  define pass where "pass =
          (case err' of None \<Rightarrow> []
           | Some e \<Rightarrow> [Log Error ''failed to sign replacement transaction'' [(''err'', VErr err')]])
          @ BuildTransactionFromRequests ctx (nonce t') (types_NewTxRequestFromTx E t') tx'' err'
          # upd @ [GetNew (Some t) err (Some t'),
                   Log Error ''failed to send tx, retrying...''
                     [(''hash'', VHash (tx_Hash E t)), (''err'', VErr err)],
                   Sleep b, Get (Some t) err True b, Broadcast ctx (Some t) err]"
  have g: "txReplacementPolicy_GetNew E h4 (Some t) err = Some t'"
    using assms(3) by (simp add: h4_def)
  have "loop_body E ctx (Some t) s = (Next tx'', s\<lparr>history := pass @ history s\<rparr>)"
    using loop_body_next [OF assms(1,2) h4_def g _ bld]
    by (simp add: h6_def upd_def pass_def h4_def)
  then have "evs = pass"
    using assms(4) by simp
  moreover have "GetNew (Some t) err (Some t') \<in> set pass"
    by (simp add: pass_def)
  moreover have "updates pass =
       (if tx_Hash E t' \<noteq> tx_Hash E t then [(tx_Hash E t, tx_Hash E t')] else [])"
    by (simp add: pass_def upd_def split: option.splits)
  ultimately show ?thesis
    by simp
qed

theorem update_iff_hash_changed_witness:
  "chain_SendTransaction scenario_env (history s0) 0 (Some tx0) = Some ReplaceUnderpriced \<and>
   retryPolicy_Get scenario_env (Broadcast 0 (Some tx0) (Some ReplaceUnderpriced) # history s0)
     (Some tx0) (Some ReplaceUnderpriced) = (True, 10) \<and>
   txReplacementPolicy_GetNew scenario_env
     (Log Error ''failed to send tx, retrying...''
        [(''hash'', VHash (tx_Hash scenario_env tx0)), (''err'', VErr (Some ReplaceUnderpriced))]
      # Sleep 10 # Get (Some tx0) (Some ReplaceUnderpriced) True 10
      # Broadcast 0 (Some tx0) (Some ReplaceUnderpriced) # history s0)
     (Some tx0) (Some ReplaceUnderpriced) = Some (tx0\<lparr>gasPrice := 110\<rparr>) \<and>
   history (snd (loop_body scenario_env 0 (Some tx0) s0))
     = history (snd (loop_body scenario_env 0 (Some tx0) s0)) @ history (s0 :: request sender) \<and>
   tx_Hash scenario_env (tx0\<lparr>gasPrice := 110\<rparr>) \<noteq> tx_Hash scenario_env tx0 \<and>
   GetNew (Some tx0) (Some ReplaceUnderpriced) (Some (tx0\<lparr>gasPrice := 110\<rparr>))
     \<in> set (history (snd (loop_body scenario_env 0 (Some tx0) s0))) \<and>
   updates (history (snd (loop_body scenario_env 0 (Some tx0) s0)))
     = [(tx_Hash scenario_env tx0, tx_Hash scenario_env (tx0\<lparr>gasPrice := 110\<rparr>))] \<and>
   chain_SendTransaction timeout_env (history s0) 0 (Some tx0) = Some (Other ''timeout'') \<and>
   retryPolicy_Get timeout_env (Broadcast 0 (Some tx0) (Some (Other ''timeout'')) # history s0)
     (Some tx0) (Some (Other ''timeout'')) = (True, 10) \<and>
   txReplacementPolicy_GetNew timeout_env
     (Log Error ''failed to send tx, retrying...''
        [(''hash'', VHash (tx_Hash timeout_env tx0)), (''err'', VErr (Some (Other ''timeout'')))]
      # Sleep 10 # Get (Some tx0) (Some (Other ''timeout'')) True 10
      # Broadcast 0 (Some tx0) (Some (Other ''timeout'')) # history s0)
     (Some tx0) (Some (Other ''timeout'')) = Some tx0 \<and>
   history (snd (loop_body timeout_env 0 (Some tx0) s0))
     = history (snd (loop_body timeout_env 0 (Some tx0) s0)) @ history (s0 :: request sender) \<and>
   GetNew (Some tx0) (Some (Other ''timeout'')) (Some tx0)
     \<in> set (history (snd (loop_body timeout_env 0 (Some tx0) s0))) \<and>
   updates (history (snd (loop_body timeout_env 0 (Some tx0) s0))) = []"
proof -
  have a1: "chain_SendTransaction scenario_env (history s0) 0 (Some tx0) = Some ReplaceUnderpriced"
    by (simp add: scenario_env_def)
  have a2: "retryPolicy_Get scenario_env (Broadcast 0 (Some tx0) (Some ReplaceUnderpriced) # history s0)
     (Some tx0) (Some ReplaceUnderpriced) = (True, 10)"
    by (simp add: scenario_env_def s0_def)
  have a3: "txReplacementPolicy_GetNew scenario_env
     (Log Error ''failed to send tx, retrying...''
        [(''hash'', VHash (tx_Hash scenario_env tx0)), (''err'', VErr (Some ReplaceUnderpriced))]
      # Sleep 10 # Get (Some tx0) (Some ReplaceUnderpriced) True 10
      # Broadcast 0 (Some tx0) (Some ReplaceUnderpriced) # history s0)
     (Some tx0) (Some ReplaceUnderpriced) = Some (tx0\<lparr>gasPrice := 110\<rparr>)"
    by (simp add: scenario_env_def GetNew_spec_def bump_gas_def tx0_def)
  have a4: "history (snd (loop_body scenario_env 0 (Some tx0) s0))
     = history (snd (loop_body scenario_env 0 (Some tx0) s0)) @ history (s0 :: request sender)"
    by (simp add: s0_def)
  have a5: "tx_Hash scenario_env (tx0\<lparr>gasPrice := 110\<rparr>) \<noteq> tx_Hash scenario_env tx0"
    by (simp add: scenario_env_def toy_hash_def tx0_def)
  have b1: "chain_SendTransaction timeout_env (history s0) 0 (Some tx0) = Some (Other ''timeout'')"
    by (simp add: timeout_env_def scenario_env_def)
  have b2: "retryPolicy_Get timeout_env (Broadcast 0 (Some tx0) (Some (Other ''timeout'')) # history s0)
     (Some tx0) (Some (Other ''timeout'')) = (True, 10)"
    by (simp add: timeout_env_def scenario_env_def s0_def)
  have b3: "txReplacementPolicy_GetNew timeout_env
     (Log Error ''failed to send tx, retrying...''
        [(''hash'', VHash (tx_Hash timeout_env tx0)), (''err'', VErr (Some (Other ''timeout'')))]
      # Sleep 10 # Get (Some tx0) (Some (Other ''timeout'')) True 10
      # Broadcast 0 (Some tx0) (Some (Other ''timeout'')) # history s0)
     (Some tx0) (Some (Other ''timeout'')) = Some tx0"
    by (simp add: timeout_env_def scenario_env_def GetNew_spec_def)
  have b4: "history (snd (loop_body timeout_env 0 (Some tx0) s0))
     = history (snd (loop_body timeout_env 0 (Some tx0) s0)) @ history (s0 :: request sender)"
    by (simp add: s0_def)
  from update_iff_hash_changed [OF a1 a2 a3 a4] update_iff_hash_changed [OF b1 b2 b3 b4]
    a1 a2 a3 a4 a5 b1 b2 b3 b4
  show ?thesis
    by simp
qed

subsection \<open>C7: gas prices under ReplaceUnderpriced\<close>




subsection \<open>C8: the nonce after NonceTooLow\<close>

text \<open>
  Claim C8 says that after \<^verbatim>\<open>NonceTooLow\<close> the next attempt broadcasts a transaction with
  another nonce and another hash. What the next attempt broadcasts is the result of
  \<^verbatim>\<open>BuildTransactionFromRequests\<close>, which the code assigns to \<^verbatim>\<open>tx\<close> together with the
  error (the defect of C1). With a chain that answers \<^verbatim>\<open>NonceTooLow\<close> and a factory whose
  build fails with \<^verbatim>\<open>(nil, err)\<close>: the replacement policy refreshes the nonce from 7 to 8,
  the build for nonce 8 fails, and the next attempt broadcasts \<^verbatim>\<open>nil\<close>, which has neither
  a nonce nor a hash; the policy asking for another retry, \<^verbatim>\<open>tx.Hash()\<close> panics.
\<close>
theorem nonce_too_low_failed_build_broadcasts_nil:
  "attempts (history (snd (SendTransaction failing_refresh_env 3 0 (Some tx0) [''a''] s0)))
     = [Some tx0, None] \<and>
   GetNew (Some tx0) (Some NonceTooLow) (Some (tx0\<lparr>nonce := 8\<rparr>))
     \<in> set (history (snd (SendTransaction failing_refresh_env 3 0 (Some tx0) [''a''] s0))) \<and>
   BuildTransactionFromRequests 0 8 \<lparr>req_gasPrice = 100, req_payload = []\<rparr> None
       (Some (Other ''cannot sign''))
     \<in> set (history (snd (SendTransaction failing_refresh_env 3 0 (Some tx0) [''a''] s0))) \<and>
   Broadcast 0 None (Some NonceTooLow)
     \<in> set (history (snd (SendTransaction failing_refresh_env 3 0 (Some tx0) [''a''] s0))) \<and>
   fst (SendTransaction failing_refresh_env 3 0 (Some tx0) [''a''] s0) = Panicked"
  unfolding numeral_3_eq_3
  by (simp add: run_simps failing_refresh_env_def nonce_too_low_env_def attempts_def)

subsection \<open>C9: the backoff and the context\<close>

text \<open>
  Claim C9: in every pass and for every context, if the retry policy answers
  \<open>retry = true\<close> with the backoff \<open>b\<close>, the pass sleeps exactly once, for \<open>b\<close>, right
  after the policy's answer, and does not return; if the policy answers \<open>retry = false\<close>,
  the pass does not sleep. A pass returns if and only if the policy answers
  \<open>retry = false\<close>. The context is handed to the chain client's broadcast and to the
  factory's build, and to nothing else: the wait and the exit of the loop depend on it
  only through what these two calls return. (A cancellation that arrives from another
  goroutine while the sleep is in progress is not part of a sequential run.)
\<close>
theorem backoff_is_a_plain_sleep:
  fixes E :: "'r env"
  assumes "chain_SendTransaction E (history s) ctx tx = err"
    and "retryPolicy_Get E (Broadcast ctx tx err # history s) tx err = (retry, b)"
    and "history (snd (loop_body E ctx tx s)) = evs @ history s"
  shows "sleeps evs = (if retry then [b] else []) \<and>
     (retry \<longrightarrow> (\<exists>evs'. evs = evs' @ [Sleep b, Get tx err True b, Broadcast ctx tx err])) \<and>
     ((\<exists>e. fst (loop_body E ctx tx s) = Return e) \<longleftrightarrow> \<not> retry) \<and>
     set (contexts evs) = {ctx}"
proof (cases rule: loop_body_cases [of E ctx tx s])
  case (stop err0 b0)
  have eq: "err0 = err" "retry = False" "b0 = b"
    using stop(2,3) assms(1,2) by simp_all
  have "evs = [Get tx err False b, Broadcast ctx tx err]"
    using stop(1) assms(3) eq by simp
  then show ?thesis
    using stop(1) eq by simp
next
  case (nil err0 b0)
  have eq: "err0 = err" "retry = True" "b0 = b"
    using nil(3,4) assms(1,2) by simp_all
  have "evs = [Sleep b, Get tx err True b, Broadcast ctx tx err]"
    using nil(2) assms(3) eq by simp
  then show ?thesis
    using nil(2) eq by simp
next
  case (nil_replacement t err0 b0)
  have eq: "err0 = err" "retry = True" "b0 = b"
    using nil_replacement(3,4) assms(1,2) by simp_all
  have "evs = [GetNew tx err None,
               Log Error ''failed to send tx, retrying...''
                 [(''hash'', VHash (tx_Hash E t)), (''err'', VErr err)]]
              @ [Sleep b, Get tx err True b, Broadcast ctx tx err]"
    using nil_replacement(2) assms(3) eq by simp
  then show ?thesis
    using nil_replacement(2) eq by simp
next
  case (go_on t err0 b0 h4 t' upd h6 tx'' err')
  have eq: "err0 = err" "retry = True" "b0 = b"
    using go_on(2,9) assms(1,2) by simp_all
  define pre :: "'r event list" where "pre =
     (case err' of None \<Rightarrow> []
      | Some e \<Rightarrow> [Log Error ''failed to sign replacement transaction'' [(''err'', VErr err')]])
     @ BuildTransactionFromRequests ctx (nonce t') (types_NewTxRequestFromTx E t') tx'' err'
     # upd
     @ [GetNew tx err (Some t'),
        Log Error ''failed to send tx, retrying...''
          [(''hash'', VHash (tx_Hash E t)), (''err'', VErr err)]]"
  have e: "evs = pre @ [Sleep b, Get tx err True b, Broadcast ctx tx err]"
    using go_on(8) assms(3) eq by (simp add: pre_def)
  have "sleeps pre = []" "set (contexts pre) = {ctx}"
    by (simp_all add: pre_def go_on(5) split: option.splits)
  then show ?thesis
    using go_on(8) eq e by simp
qed

theorem backoff_is_a_plain_sleep_witness:
  "chain_SendTransaction cancelled_context_env (history s0) 1 (Some tx0)
     = Some (Other ''context canceled'') \<and>
   retryPolicy_Get cancelled_context_env
     (Broadcast 1 (Some tx0) (Some (Other ''context canceled'')) # history s0)
     (Some tx0) (Some (Other ''context canceled'')) = (True, 10) \<and>
   history (snd (loop_body cancelled_context_env 1 (Some tx0) s0))
     = history (snd (loop_body cancelled_context_env 1 (Some tx0) s0)) @ history (s0 :: request sender) \<and>
   sleeps (history (snd (loop_body cancelled_context_env 1 (Some tx0) s0))) = [10] \<and>
   (\<exists>evs'. history (snd (loop_body cancelled_context_env 1 (Some tx0) s0))
      = evs' @ [Sleep 10, Get (Some tx0) (Some (Other ''context canceled'')) True 10,
                Broadcast 1 (Some tx0) (Some (Other ''context canceled''))]) \<and>
   (\<forall>e. fst (loop_body cancelled_context_env 1 (Some tx0) s0) \<noteq> Return e) \<and>
   set (contexts (history (snd (loop_body cancelled_context_env 1 (Some tx0) s0)))) = {1}"
proof -
  have a1: "chain_SendTransaction cancelled_context_env (history s0) 1 (Some tx0)
     = Some (Other ''context canceled'')"
    by (simp add: cancelled_context_env_def scenario_env_def)
  have a2: "retryPolicy_Get cancelled_context_env
     (Broadcast 1 (Some tx0) (Some (Other ''context canceled'')) # history s0)
     (Some tx0) (Some (Other ''context canceled'')) = (True, 10)"
    by (simp add: cancelled_context_env_def scenario_env_def s0_def)
  have a3: "history (snd (loop_body cancelled_context_env 1 (Some tx0) s0))
     = history (snd (loop_body cancelled_context_env 1 (Some tx0) s0)) @ history (s0 :: request sender)"
    by (simp add: s0_def)
  from backoff_is_a_plain_sleep [OF a1 a2 a3] a1 a2 a3 show ?thesis
    by simp
qed

subsection \<open>C10: the rest of the registry\<close>

text \<open>
  Claim C10: for an id that is not in \<^verbatim>\<open>msgIDs\<close>, \<^verbatim>\<open>IsSending\<close> is the same after the call
  as before it, however the call ends; with an empty \<^verbatim>\<open>msgIDs\<close> the registry is
  unchanged.
\<close>
theorem registry_frame:
  "(msgID \<notin> set msgIDs \<longrightarrow>
      IsSending (snd (SendTransaction E n ctx tx msgIDs s)) msgID = IsSending s msgID)
   \<and> sendingTxs (snd (SendTransaction E n ctx tx [] s)) = sendingTxs s"
proof -
  have "sendingTxs (snd (SendTransaction E n ctx tx [] s)) k = sendingTxs s k" for k
    by (simp add: sendingTxs_SendTransaction split: outcome.splits)
  then have "sendingTxs (snd (SendTransaction E n ctx tx [] s)) = sendingTxs s"
    by (rule ext)
  then show ?thesis
    by (simp add: IsSending_def sendingTxs_SendTransaction split: outcome.splits)
qed

theorem registry_frame_witness:
  "''c'' \<notin> set [''a'', ''b''] \<and>
   IsSending (sendingTxs_Store s0 ''c'') ''c'' \<and>
   IsSending (snd (SendTransaction scenario_env 3 0 (Some tx0) [''a'', ''b''] (sendingTxs_Store s0 ''c''))) ''c'' \<and>
   \<not> IsSending (snd (SendTransaction scenario_env 3 0 (Some tx0) [''a'', ''b''] (sendingTxs_Store s0 ''c''))) ''d''"
  using registry_frame [of "''c''" "[''a'', ''b'']" scenario_env 3 0 "Some tx0" "sendingTxs_Store s0 ''c''"]
    registry_frame [of "''d''" "[''a'', ''b'']" scenario_env 3 0 "Some tx0" "sendingTxs_Store s0 ''c''"]
  by (simp add: IsSending_def sendingTxs_Store_def s0_def)

end
